theory Spec2Isabelle
  imports Main "HOL-Library.Sublist"
begin

section \<open>Python values, documents and errors\<close>

text \<open>
  The JSON documents the client reads and the arguments callers pass are Python values.
  A dictionary is an association list (insertion order kept, lookup by \<open>map_of\<close>).
  A Python \<open>str\<close> value is the list of its Unicode code points, since \<open>str.upper\<close> works
  code point by code point; \<open>str\<close> turns an ASCII literal into such a list. Text that the
  client only copies or compares (dictionary keys, paths, messages) stays a \<open>string\<close>.
\<close>

type_synonym pystr = "nat list"

definition str :: "string \<Rightarrow> pystr" where
  "str s = map of_char s"

datatype pyval =
    PNone
  | PBool bool
  | PInt int
  | PStr pystr
  | PList "pyval list"
  | PDict "(string \<times> pyval) list"

type_synonym document = "(string \<times> pyval) list"

text \<open>
  Exceptions of the source as values. \<open>PyException\<close> is the bare \<open>Exception(msg)\<close> raised by
  \<open>_check_if_open\<close> (the invalid-state error), \<open>ValueError\<close> the invalid-argument error,
  \<open>AttributeError\<close> what calling a string method on a non-string raises, \<open>KeyError\<close> a
  failed subscript, \<open>SchemaMismatch\<close> the type-tag failure of the base constructor and
  \<open>HTTPError\<close> whatever the transport reports.
\<close>

datatype error =
    PyException string
  | ValueError string
  | AttributeError string
  | KeyError string
  | SchemaMismatch
  | HTTPError string

text \<open>Python truthiness, as used by \<open>not x\<close> and \<open>x or y\<close>.\<close>

fun truthy :: "pyval \<Rightarrow> bool" where
  "truthy PNone = False"
| "truthy (PBool b) = b"
| "truthy (PInt i) = (i \<noteq> 0)"
| "truthy (PStr s) = (s \<noteq> [])"
| "truthy (PList xs) = (xs \<noteq> [])"
| "truthy (PDict d) = (d \<noteq> [])"

definition py_or :: "pyval \<Rightarrow> pyval \<Rightarrow> pyval" where
  "py_or a b = (if truthy a then a else b)"

text \<open>A keyword argument with a default: omitted by the caller, or given.\<close>

datatype 'a arg = Omitted | Given 'a

fun arg_or :: "'a \<Rightarrow> 'a arg \<Rightarrow> 'a" where
  "arg_or d Omitted = d"
| "arg_or d (Given x) = x"

text \<open>
  \<open>str.upper\<close> maps every code point to its full uppercase form, which may be several code
  points long. On ASCII the letters a to z move to A to Z and all else stays.
\<close>

definition ascii_upper :: "nat \<Rightarrow> nat" where
  "ascii_upper c = (if 97 \<le> c \<and> c \<le> 122 then c - 32 else c)"

text \<open>
  Beyond ASCII the uppercase forms are those of the Unicode character database (version
  14.0, the one of CPython 3.11). \<open>upper_special\<close> lists the code points whose uppercase form
  is several code points long, each with that form. \<open>upper_runs\<close> lists the others that
  \<open>str.upper\<close> changes, as runs \<open>(start, n, step, img)\<close>: the code points \<open>start\<close>,
  \<open>start + step\<close>, ... (\<open>n\<close> of them) have the uppercase forms \<open>img\<close>, \<open>img + step\<close>, ... .
  A code point beyond ASCII in neither list is its own uppercase form.
\<close>

definition upper_special :: "(nat \<times> nat list) list" where
  "upper_special = [
    (223, [83, 83]), (329, [700, 78]), (496, [74, 780]), (912, [921, 776, 769]),
    (944, [933, 776, 769]), (1415, [1333, 1362]), (7830, [72, 817]), (7831, [84, 776]),
    (7832, [87, 778]), (7833, [89, 778]), (7834, [65, 702]), (8016, [933, 787]),
    (8018, [933, 787, 768]), (8020, [933, 787, 769]), (8022, [933, 787, 834]),
    (8064, [7944, 921]), (8065, [7945, 921]), (8066, [7946, 921]), (8067, [7947, 921]),
    (8068, [7948, 921]), (8069, [7949, 921]), (8070, [7950, 921]), (8071, [7951, 921]),
    (8072, [7944, 921]), (8073, [7945, 921]), (8074, [7946, 921]), (8075, [7947, 921]),
    (8076, [7948, 921]), (8077, [7949, 921]), (8078, [7950, 921]), (8079, [7951, 921]),
    (8080, [7976, 921]), (8081, [7977, 921]), (8082, [7978, 921]), (8083, [7979, 921]),
    (8084, [7980, 921]), (8085, [7981, 921]), (8086, [7982, 921]), (8087, [7983, 921]),
    (8088, [7976, 921]), (8089, [7977, 921]), (8090, [7978, 921]), (8091, [7979, 921]),
    (8092, [7980, 921]), (8093, [7981, 921]), (8094, [7982, 921]), (8095, [7983, 921]),
    (8096, [8040, 921]), (8097, [8041, 921]), (8098, [8042, 921]), (8099, [8043, 921]),
    (8100, [8044, 921]), (8101, [8045, 921]), (8102, [8046, 921]), (8103, [8047, 921]),
    (8104, [8040, 921]), (8105, [8041, 921]), (8106, [8042, 921]), (8107, [8043, 921]),
    (8108, [8044, 921]), (8109, [8045, 921]), (8110, [8046, 921]), (8111, [8047, 921]),
    (8114, [8122, 921]), (8115, [913, 921]), (8116, [902, 921]), (8118, [913, 834]),
    (8119, [913, 834, 921]), (8124, [913, 921]), (8130, [8138, 921]), (8131, [919, 921]),
    (8132, [905, 921]), (8134, [919, 834]), (8135, [919, 834, 921]), (8140, [919, 921]),
    (8146, [921, 776, 768]), (8147, [921, 776, 769]), (8150, [921, 834]),
    (8151, [921, 776, 834]), (8162, [933, 776, 768]), (8163, [933, 776, 769]),
    (8164, [929, 787]), (8166, [933, 834]), (8167, [933, 776, 834]), (8178, [8186, 921]),
    (8179, [937, 921]), (8180, [911, 921]), (8182, [937, 834]), (8183, [937, 834, 921]),
    (8188, [937, 921]), (64256, [70, 70]), (64257, [70, 73]), (64258, [70, 76]),
    (64259, [70, 70, 73]), (64260, [70, 70, 76]), (64261, [83, 84]), (64262, [83, 84]),
    (64275, [1348, 1350]), (64276, [1348, 1333]), (64277, [1348, 1339]), (64278, [1358, 1350]),
    (64279, [1348, 1341])]"

definition upper_runs :: "(nat \<times> nat \<times> nat \<times> nat) list" where
  "upper_runs = [
    (181, 1, 1, 924), (224, 23, 1, 192), (248, 7, 1, 216), (255, 1, 1, 376), (257, 24, 2, 256),
    (305, 1, 1, 73), (307, 3, 2, 306), (314, 8, 2, 313), (331, 23, 2, 330), (378, 3, 2, 377),
    (383, 1, 1, 83), (384, 1, 1, 579), (387, 2, 2, 386), (392, 1, 1, 391), (396, 1, 1, 395),
    (402, 1, 1, 401), (405, 1, 1, 502), (409, 1, 1, 408), (410, 1, 1, 573), (414, 1, 1, 544),
    (417, 3, 2, 416), (424, 1, 1, 423), (429, 1, 1, 428), (432, 1, 1, 431), (436, 2, 2, 435),
    (441, 1, 1, 440), (445, 1, 1, 444), (447, 1, 1, 503), (453, 1, 1, 452), (454, 1, 1, 452),
    (456, 1, 1, 455), (457, 1, 1, 455), (459, 1, 1, 458), (460, 1, 1, 458), (462, 8, 2, 461),
    (477, 1, 1, 398), (479, 9, 2, 478), (498, 1, 1, 497), (499, 1, 1, 497), (501, 1, 1, 500),
    (505, 20, 2, 504), (547, 9, 2, 546), (572, 1, 1, 571), (575, 2, 1, 11390),
    (578, 1, 1, 577), (583, 5, 2, 582), (592, 1, 1, 11375), (593, 1, 1, 11373),
    (594, 1, 1, 11376), (595, 1, 1, 385), (596, 1, 1, 390), (598, 2, 1, 393), (601, 1, 1, 399),
    (603, 1, 1, 400), (604, 1, 1, 42923), (608, 1, 1, 403), (609, 1, 1, 42924),
    (611, 1, 1, 404), (613, 1, 1, 42893), (614, 1, 1, 42922), (616, 1, 1, 407),
    (617, 1, 1, 406), (618, 1, 1, 42926), (619, 1, 1, 11362), (620, 1, 1, 42925),
    (623, 1, 1, 412), (625, 1, 1, 11374), (626, 1, 1, 413), (629, 1, 1, 415),
    (637, 1, 1, 11364), (640, 1, 1, 422), (642, 1, 1, 42949), (643, 1, 1, 425),
    (647, 1, 1, 42929), (648, 1, 1, 430), (649, 1, 1, 580), (650, 2, 1, 433), (652, 1, 1, 581),
    (658, 1, 1, 439), (669, 1, 1, 42930), (670, 1, 1, 42928), (837, 1, 1, 921),
    (881, 2, 2, 880), (887, 1, 1, 886), (891, 3, 1, 1021), (940, 1, 1, 902), (941, 3, 1, 904),
    (945, 17, 1, 913), (962, 1, 1, 931), (963, 9, 1, 931), (972, 1, 1, 908), (973, 2, 1, 910),
    (976, 1, 1, 914), (977, 1, 1, 920), (981, 1, 1, 934), (982, 1, 1, 928), (983, 1, 1, 975),
    (985, 12, 2, 984), (1008, 1, 1, 922), (1009, 1, 1, 929), (1010, 1, 1, 1017),
    (1011, 1, 1, 895), (1013, 1, 1, 917), (1016, 1, 1, 1015), (1019, 1, 1, 1018),
    (1072, 32, 1, 1040), (1104, 16, 1, 1024), (1121, 17, 2, 1120), (1163, 27, 2, 1162),
    (1218, 7, 2, 1217), (1231, 1, 1, 1216), (1233, 48, 2, 1232), (1377, 38, 1, 1329),
    (4304, 43, 1, 7312), (4349, 3, 1, 7357), (5112, 6, 1, 5104), (7296, 1, 1, 1042),
    (7297, 1, 1, 1044), (7298, 1, 1, 1054), (7299, 2, 1, 1057), (7301, 1, 1, 1058),
    (7302, 1, 1, 1066), (7303, 1, 1, 1122), (7304, 1, 1, 42570), (7545, 1, 1, 42877),
    (7549, 1, 1, 11363), (7566, 1, 1, 42950), (7681, 75, 2, 7680), (7835, 1, 1, 7776),
    (7841, 48, 2, 7840), (7936, 8, 1, 7944), (7952, 6, 1, 7960), (7968, 8, 1, 7976),
    (7984, 8, 1, 7992), (8000, 6, 1, 8008), (8017, 4, 2, 8025), (8032, 8, 1, 8040),
    (8048, 2, 1, 8122), (8050, 4, 1, 8136), (8054, 2, 1, 8154), (8056, 2, 1, 8184),
    (8058, 2, 1, 8170), (8060, 2, 1, 8186), (8112, 2, 1, 8120), (8126, 1, 1, 921),
    (8144, 2, 1, 8152), (8160, 2, 1, 8168), (8165, 1, 1, 8172), (8526, 1, 1, 8498),
    (8560, 16, 1, 8544), (8580, 1, 1, 8579), (9424, 26, 1, 9398), (11312, 48, 1, 11264),
    (11361, 1, 1, 11360), (11365, 1, 1, 570), (11366, 1, 1, 574), (11368, 3, 2, 11367),
    (11379, 1, 1, 11378), (11382, 1, 1, 11381), (11393, 50, 2, 11392), (11500, 2, 2, 11499),
    (11507, 1, 1, 11506), (11520, 38, 1, 4256), (11559, 1, 1, 4295), (11565, 1, 1, 4301),
    (42561, 23, 2, 42560), (42625, 14, 2, 42624), (42787, 7, 2, 42786), (42803, 31, 2, 42802),
    (42874, 2, 2, 42873), (42879, 5, 2, 42878), (42892, 1, 1, 42891), (42897, 2, 2, 42896),
    (42900, 1, 1, 42948), (42903, 10, 2, 42902), (42933, 8, 2, 42932), (42952, 2, 2, 42951),
    (42961, 1, 1, 42960), (42967, 2, 2, 42966), (42998, 1, 1, 42997), (43859, 1, 1, 42931),
    (43888, 80, 1, 5024), (65345, 26, 1, 65313), (66600, 40, 1, 66560), (66776, 36, 1, 66736),
    (66967, 11, 1, 66928), (66979, 15, 1, 66940), (66995, 7, 1, 66956), (67003, 2, 1, 66964),
    (68800, 51, 1, 68736), (71872, 32, 1, 71840), (93792, 32, 1, 93760),
    (125218, 34, 1, 125184)]"

fun run_image :: "(nat \<times> nat \<times> nat \<times> nat) list \<Rightarrow> nat \<Rightarrow> nat option" where
  "run_image [] c = None"
| "run_image ((start, n, step, img) # runs) c =
     (if start \<le> c \<and> c < start + n * step \<and> (c - start) mod step = 0
      then Some (img + (c - start))
      else run_image runs c)"

definition upper_cp :: "nat \<Rightarrow> nat list" where
  "upper_cp c =
     (if c < 128 then [ascii_upper c]
      else case map_of upper_special c of
             Some u \<Rightarrow> u
           | None \<Rightarrow> (case run_image upper_runs c of Some u \<Rightarrow> [u] | None \<Rightarrow> [c]))"

definition upper :: "pystr \<Rightarrow> pystr" where
  "upper s = concat (map upper_cp s)"

text \<open>Calling \<open>.upper()\<close> on an arbitrary value: only a string has the method.\<close>

fun py_upper :: "pyval \<Rightarrow> error + pystr" where
  "py_upper (PStr s) = Inr (upper s)"
| "py_upper v = Inl (AttributeError ''upper'')"

section \<open>Constants of the Bitbucket Cloud client\<close>

definition PR_MERGE_COMMIT :: string where "PR_MERGE_COMMIT = ''merge_commit''"
definition PR_MERGE_SQUASH :: string where "PR_MERGE_SQUASH = ''squash''"
definition PR_MERGE_FF :: string where "PR_MERGE_FF = ''fast_forward''"

definition PR_MERGE_STRATEGIES :: "string list" where
  "PR_MERGE_STRATEGIES = [PR_MERGE_COMMIT, PR_MERGE_SQUASH, PR_MERGE_FF]"

definition PR_STATE_OPEN :: string where "PR_STATE_OPEN = ''OPEN''"
definition PR_STATE_DECLINED :: string where "PR_STATE_DECLINED = ''DECLINED''"
definition PR_STATE_MERGED :: string where "PR_STATE_MERGED = ''MERGED''"
definition PR_STATE_SUPERSEDED :: string where "PR_STATE_SUPERSEDED = ''SUPERSEDED''"

section \<open>The HTTP request primitive\<close>

datatype http_method = GET | POST | DELETE

record request =
  meth :: http_method
  base :: string
  path :: string
  query_params :: "(string \<times> pyval) list"
  headers :: "(string \<times> string) list"
  body :: "pyval option"

text \<open>
  The server answers a request with a value or a transport error; the client's effect on
  the world is the list of requests sent so far.
\<close>

type_synonym server = "request \<Rightarrow> error + pyval"

type_synonym 'a io = "request list \<Rightarrow> (error + 'a) \<times> request list"

definition send :: "server \<Rightarrow> request \<Rightarrow> pyval io" where
  "send srv r sent = (srv r, sent @ [r])"

definition raise :: "error \<Rightarrow> 'a io" where
  "raise e sent = (Inl e, sent)"

section \<open>Pull requests\<close>

record PullRequest =
  pr_url :: string
  pr_data :: document

text \<open>
  Modelled from the spec: \<open>get_data\<close> is a method of the base class \<open>BitbucketCloudBase\<close>,
  which is not among the source files. An accessor is a pure function of the owned
  document: the field's value, and \<open>None\<close> when the document has no such field. The theorems
  below assume the fields they read to be present.
\<close>

definition get_data :: "PullRequest \<Rightarrow> string \<Rightarrow> pyval" where
  "get_data self k = (case map_of (pr_data self) k of Some v \<Rightarrow> v | None \<Rightarrow> PNone)"

text \<open>
  Modelled from the spec: \<open>post\<close> is a method of the base class, not among the source files.
  An action issues one request against a sub-path of the object's own URL.
\<close>

definition post :: "server \<Rightarrow> PullRequest \<Rightarrow> string \<Rightarrow> pyval option \<Rightarrow> pyval io" where
  "post srv self p d =
     send srv \<lparr>meth = POST, base = pr_url self, path = p, query_params = [], headers = [], body = d\<rparr>"

text \<open>
  Modelled from the spec: \<open>delete\<close> is a method of the base class, not among the source files;
  one request against a sub-path of the object's own URL, as \<open>post\<close>.
\<close>

definition delete :: "server \<Rightarrow> PullRequest \<Rightarrow> string \<Rightarrow> pyval io" where
  "delete srv self p =
     send srv \<lparr>meth = DELETE, base = pr_url self, path = p, query_params = [], headers = [],
       body = None\<rparr>"

text \<open>
  Modelled from the spec: the constructor of the base class checks the document's type tag
  against the expected one; it fails when the tag is present and differs, and the check is
  skipped when the document carries no tag.
\<close>

definition PullRequest_init :: "string \<Rightarrow> document \<Rightarrow> error + PullRequest" where
  "PullRequest_init u d =
     (case map_of d ''type'' of
        None \<Rightarrow> Inr \<lparr>pr_url = u, pr_data = d\<rparr>
      | Some t \<Rightarrow>
          if t = PStr (str ''pullrequest'') then Inr \<lparr>pr_url = u, pr_data = d\<rparr> else Inl SchemaMismatch)"

subsection \<open>State predicates\<close>

definition is_declined :: "PullRequest \<Rightarrow> error + bool" where
  "is_declined self =
     (case py_upper (get_data self ''state'') of
        Inl e \<Rightarrow> Inl e | Inr u \<Rightarrow> Inr (u = str PR_STATE_DECLINED))"

definition is_merged :: "PullRequest \<Rightarrow> error + bool" where
  "is_merged self =
     (case py_upper (get_data self ''state'') of
        Inl e \<Rightarrow> Inl e | Inr u \<Rightarrow> Inr (u = str PR_STATE_MERGED))"

definition is_open :: "PullRequest \<Rightarrow> error + bool" where
  "is_open self =
     (case py_upper (get_data self ''state'') of
        Inl e \<Rightarrow> Inl e | Inr u \<Rightarrow> Inr (u = str PR_STATE_OPEN))"

definition is_superseded :: "PullRequest \<Rightarrow> error + bool" where
  "is_superseded self =
     (case py_upper (get_data self ''state'') of
        Inl e \<Rightarrow> Inl e | Inr u \<Rightarrow> Inr (u = str PR_STATE_SUPERSEDED))"

definition close_source_branch :: "PullRequest \<Rightarrow> pyval" where
  "close_source_branch self = get_data self ''close_source_branch''"

definition check_if_open :: "PullRequest \<Rightarrow> error + unit" where
  "check_if_open self =
     (case is_open self of
        Inl e \<Rightarrow> Inl e
      | Inr b \<Rightarrow> if \<not> b then Inl (PyException ''Pull Request isn't open'') else Inr ())"

subsection \<open>Actions\<close>

definition comment :: "server \<Rightarrow> PullRequest \<Rightarrow> pyval \<Rightarrow> pyval io" where
  "comment srv self raw_message =
     (if \<not> truthy raw_message then raise (ValueError ''No message set'')
      else post srv self ''comments'' (Some (PDict [(''content'', PDict [(''raw'', raw_message)])])))"

definition approve :: "server \<Rightarrow> PullRequest \<Rightarrow> pyval io" where
  "approve srv self =
     (case check_if_open self of
        Inl e \<Rightarrow> raise e
      | Inr _ \<Rightarrow> post srv self ''approve'' (Some (PDict [(''approved'', PBool True)])))"

definition unapprove :: "server \<Rightarrow> PullRequest \<Rightarrow> pyval io" where
  "unapprove srv self =
     (case check_if_open self of
        Inl e \<Rightarrow> raise e
      | Inr _ \<Rightarrow> delete srv self ''approve'')"

definition decline :: "server \<Rightarrow> PullRequest \<Rightarrow> pyval io" where
  "decline srv self =
     (case check_if_open self of
        Inl e \<Rightarrow> raise e
      | Inr _ \<Rightarrow> post srv self ''decline'' None)"

text \<open>The text \<open>str.format\<close> prints for a list of strings: \<open>['a', 'b']\<close>.\<close>

fun repr_items :: "string list \<Rightarrow> string" where
  "repr_items [] = []"
| "repr_items [x] = [CHR 0x27] @ x @ [CHR 0x27]"
| "repr_items (x # xs) = [CHR 0x27] @ x @ [CHR 0x27] @ '', '' @ repr_items xs"

definition repr_list :: "string list \<Rightarrow> string" where
  "repr_list xs = ''['' @ repr_items xs @ '']''"

definition merge :: "server \<Rightarrow> PullRequest \<Rightarrow> pyval arg \<Rightarrow> pyval arg \<Rightarrow> pyval io" where
  "merge srv self merge_strategy_arg close_source_branch_arg =
     (let merge_strategy = arg_or (PStr (str PR_MERGE_COMMIT)) merge_strategy_arg;
          close_source_branch_given = arg_or PNone close_source_branch_arg
      in case check_if_open self of
           Inl e \<Rightarrow> raise e
         | Inr _ \<Rightarrow>
             if merge_strategy \<notin> set (map (\<lambda>s. PStr (str s)) PR_MERGE_STRATEGIES)
             then raise (ValueError (''merge_stragegy must be '' @ repr_list PR_MERGE_STRATEGIES))
             else post srv self ''merge''
                    (Some (PDict
                      [(''close_source_branch'',
                          py_or close_source_branch_given (close_source_branch self)),
                       (''merge_strategy'', merge_strategy)])))"

section \<open>The collection of pull requests\<close>

record PullRequests =
  prs_url :: string

text \<open>
  \<open>url_joiner\<close> (of the REST client) and \<open>_get_paged\<close> (of the base class) are defined outside
  the source files and are parameters here: \<open>url_joiner\<close> maps the collection URL and an id
  to the object's URL, and \<open>paged\<close> maps the query parameters to the records the pager
  yields, in order, followed by the error that ended the paging, if any.
\<close>

type_synonym joiner = "string \<Rightarrow> pyval \<Rightarrow> string"

type_synonym pager = "(string \<times> pyval) list \<Rightarrow> document list \<times> error option"

text \<open>Item assignment \<open>d[k] = v\<close> on a dictionary.\<close>

definition dict_set :: "(string \<times> 'v) list \<Rightarrow> string \<Rightarrow> 'v \<Rightarrow> (string \<times> 'v) list" where
  "dict_set d k v =
     (if k \<in> set (map fst d) then map (\<lambda>(k', v'). if k' = k then (k', v) else (k', v')) d
      else d @ [(k, v)])"

text \<open>\<open>__get_object\<close>: \<open>None\<close> for a record with an \<open>errors\<close> key, the wrapped record otherwise.\<close>

definition get_object :: "PullRequests \<Rightarrow> joiner \<Rightarrow> document \<Rightarrow> error + PullRequest option" where
  "get_object self url_joiner d =
     (if map_of d ''errors'' \<noteq> None then Inr None
      else case map_of d ''id'' of
             None \<Rightarrow> Inl (KeyError ''id'')
           | Some i \<Rightarrow>
               (case PullRequest_init (url_joiner (prs_url self) i) d of
                  Inl e \<Rightarrow> Inl e
                | Inr pr \<Rightarrow> Inr (Some pr)))"

text \<open>
  The generator's loop: what it yields, in order, and the error that ended it, if any.
  A record whose wrapping raises ends the generator there.
\<close>

fun each_loop ::
  "PullRequests \<Rightarrow> joiner \<Rightarrow> document list \<Rightarrow> error option
     \<Rightarrow> PullRequest option list \<times> error option" where
  "each_loop self url_joiner [] fin = ([], fin)"
| "each_loop self url_joiner (pr # rest) fin =
     (case get_object self url_joiner pr of
        Inl e \<Rightarrow> ([], Some e)
      | Inr y \<Rightarrow>
          (case each_loop self url_joiner rest fin of (ys, r) \<Rightarrow> (y # ys, r)))"

definition each_params :: "pyval \<Rightarrow> pyval \<Rightarrow> (string \<times> pyval) list" where
  "each_params q sort' =
     (let params = [];
          params = (if sort' \<noteq> PNone then dict_set params ''sort'' sort' else params);
          params = (if q \<noteq> PNone then dict_set params ''q'' q else params)
      in params)"

definition each ::
  "PullRequests \<Rightarrow> joiner \<Rightarrow> pager \<Rightarrow> pyval arg \<Rightarrow> pyval arg
     \<Rightarrow> PullRequest option list \<times> error option" where
  "each self url_joiner paged q_arg sort_arg =
     (let q = arg_or PNone q_arg; sort' = arg_or PNone sort_arg
      in case paged (each_params q sort') of
           (records, fin) \<Rightarrow> each_loop self url_joiner records fin)"

section \<open>The Service Desk client\<close>

record ServiceDesk =
  sd_url :: string
  advanced_mode :: bool
  experimental_headers :: "(string \<times> string) list"

text \<open>
  Modelled from the spec: \<open>get\<close> is a method of \<open>AtlassianRestAPI\<close>, which is not among the
  source files; it is the request primitive \<open>get(path, params?) -> json\<close>, one request per
  call.
\<close>

definition sd_get ::
  "server \<Rightarrow> ServiceDesk \<Rightarrow> string \<Rightarrow> (string \<times> pyval) list \<Rightarrow> (string \<times> string) list
     \<Rightarrow> pyval io" where
  "sd_get srv self p ps hs =
     send srv \<lparr>meth = GET, base = sd_url self, path = p, query_params = ps, headers = hs, body = None\<rparr>"

text \<open>\<open>x.get(k)\<close>: the value or \<open>None\<close> on a dictionary, no such method elsewhere.\<close>

fun py_get :: "pyval \<Rightarrow> string \<Rightarrow> error + pyval" where
  "py_get (PDict d) k = Inr (case map_of d k of Some v \<Rightarrow> v | None \<Rightarrow> PNone)"
| "py_get v k = Inl (AttributeError ''get'')"

text \<open>\<open>'{}'.format(x)\<close> for an optional string.\<close>

fun format_opt :: "string option \<Rightarrow> string" where
  "format_opt None = ''None''"
| "format_opt (Some s) = s"

text \<open>
  The paging arguments \<open>start\<close> and \<open>limit\<close> are optional integers (\<open>None\<close> or an \<open>int\<close>, on
  which \<open>int(...)\<close> is the identity), with the defaults 0 and 50 when the caller omits them.
  Every list method repeats the same two statements, \<open>if start is not None: params["start"] =
  int(start)\<close> and the like for \<open>limit\<close>; \<open>paging_params\<close> is that pair, applied to the
  parameters built so far.
\<close>

definition paging_params ::
  "(string \<times> pyval) list \<Rightarrow> int option \<Rightarrow> int option \<Rightarrow> (string \<times> pyval) list" where
  "paging_params params start limit =
     (let params = (case start of None \<Rightarrow> params | Some s \<Rightarrow> dict_set params ''start'' (PInt s));
          params = (case limit of None \<Rightarrow> params | Some l \<Rightarrow> dict_set params ''limit'' (PInt l))
      in params)"

definition get_service_desks :: "server \<Rightarrow> ServiceDesk \<Rightarrow> pyval io" where
  "get_service_desks srv self sent =
     (case sd_get srv self ''rest/servicedeskapi/servicedesk'' [] (experimental_headers self) sent of
        (Inl e, sent') \<Rightarrow> (Inl e, sent')
      | (Inr service_desks_list, sent') \<Rightarrow>
          if advanced_mode self then (Inr service_desks_list, sent')
          else (py_get (py_or service_desks_list (PDict [])) ''values'', sent'))"

definition get_my_customer_requests :: "server \<Rightarrow> ServiceDesk \<Rightarrow> pyval io" where
  "get_my_customer_requests srv self sent =
     (case sd_get srv self ''rest/servicedeskapi/request'' [] (experimental_headers self) sent of
        (Inl e, sent') \<Rightarrow> (Inl e, sent')
      | (Inr response, sent') \<Rightarrow>
          if advanced_mode self then (Inr response, sent')
          else (py_get (py_or response (PDict [])) ''values'', sent'))"

definition get_request_participants ::
  "server \<Rightarrow> ServiceDesk \<Rightarrow> string \<Rightarrow> int option arg \<Rightarrow> int option arg \<Rightarrow> pyval io" where
  "get_request_participants srv self issue_id_or_key start_arg limit_arg sent =
     (let start = arg_or (Some 0) start_arg; limit = arg_or (Some 50) limit_arg;
          url = ''rest/servicedeskapi/request/'' @ issue_id_or_key @ ''/participant'';
          params = paging_params [] start limit
      in case sd_get srv self url params (experimental_headers self) sent of
           (Inl e, sent') \<Rightarrow> (Inl e, sent')
         | (Inr response, sent') \<Rightarrow>
             if advanced_mode self then (Inr response, sent')
             else (py_get (py_or response (PDict [])) ''values'', sent'))"

definition get_organisations ::
  "server \<Rightarrow> ServiceDesk \<Rightarrow> string option arg \<Rightarrow> int option arg \<Rightarrow> int option arg \<Rightarrow> pyval io" where
  "get_organisations srv self service_desk_id_arg start_arg limit_arg sent =
     (let service_desk_id = arg_or None service_desk_id_arg;
          start = arg_or (Some 0) start_arg; limit = arg_or (Some 50) limit_arg;
          url_without_sd_id = ''rest/servicedeskapi/organization'';
          url_with_sd_id =
            ''rest/servicedeskapi/servicedesk/'' @ format_opt service_desk_id @ ''/organization'';
          params = paging_params [] start limit
      in if service_desk_id = None
         then sd_get srv self url_without_sd_id params (experimental_headers self) sent
         else sd_get srv self url_with_sd_id params (experimental_headers self) sent)"

definition get_sla ::
  "server \<Rightarrow> ServiceDesk \<Rightarrow> string \<Rightarrow> int option arg \<Rightarrow> int option arg \<Rightarrow> pyval io" where
  "get_sla srv self issue_id_or_key start_arg limit_arg sent =
     (let start = arg_or (Some 0) start_arg; limit = arg_or (Some 50) limit_arg;
          url = ''rest/servicedeskapi/request/'' @ issue_id_or_key @ ''/sla'';
          params = paging_params [] start limit
      in case sd_get srv self url params (experimental_headers self) sent of
           (Inl e, sent') \<Rightarrow> (Inl e, sent')
         | (Inr response, sent') \<Rightarrow>
             if advanced_mode self then (Inr response, sent')
             else (py_get (py_or response (PDict [])) ''values'', sent'))"

definition get_approvals ::
  "server \<Rightarrow> ServiceDesk \<Rightarrow> string \<Rightarrow> int option arg \<Rightarrow> int option arg \<Rightarrow> pyval io" where
  "get_approvals srv self issue_id_or_key start_arg limit_arg sent =
     (let start = arg_or (Some 0) start_arg; limit = arg_or (Some 50) limit_arg;
          url = ''rest/servicedeskapi/request/'' @ issue_id_or_key @ ''/approval'';
          params = paging_params [] start limit
      in case sd_get srv self url params (experimental_headers self) sent of
           (Inl e, sent') \<Rightarrow> (Inl e, sent')
         | (Inr response, sent') \<Rightarrow>
             if advanced_mode self then (Inr response, sent')
             else (py_get (py_or response (PDict [])) ''values'', sent'))"

definition get_users_in_organization ::
  "server \<Rightarrow> ServiceDesk \<Rightarrow> string \<Rightarrow> int option arg \<Rightarrow> int option arg \<Rightarrow> pyval io" where
  "get_users_in_organization srv self organization_id start_arg limit_arg sent =
     (let start = arg_or (Some 0) start_arg; limit = arg_or (Some 50) limit_arg;
          url = ''rest/servicedeskapi/organization/'' @ organization_id @ ''/user'';
          params = paging_params [] start limit
      in sd_get srv self url params (experimental_headers self) sent)"

definition get_customers ::
  "server \<Rightarrow> ServiceDesk \<Rightarrow> string \<Rightarrow> pyval arg \<Rightarrow> int option arg \<Rightarrow> int option arg
     \<Rightarrow> pyval io" where
  "get_customers srv self service_desk_id query_arg start_arg limit_arg sent =
     (let query = arg_or PNone query_arg;
          start = arg_or (Some 0) start_arg; limit = arg_or (Some 50) limit_arg;
          url = ''rest/servicedeskapi/servicedesk/'' @ service_desk_id @ ''/customer'';
          params = paging_params [] start limit;
          params = (if query \<noteq> PNone then dict_set params ''query'' query else params)
      in sd_get srv self url params (experimental_headers self) sent)"

definition get_queues ::
  "server \<Rightarrow> ServiceDesk \<Rightarrow> string \<Rightarrow> pyval arg \<Rightarrow> int option arg \<Rightarrow> int option arg
     \<Rightarrow> pyval io" where
  "get_queues srv self service_desk_id include_count_arg start_arg limit_arg sent =
     (let include_count = arg_or (PBool False) include_count_arg;
          start = arg_or (Some 0) start_arg; limit = arg_or (Some 50) limit_arg;
          url = ''rest/servicedeskapi/servicedesk/'' @ service_desk_id @ ''/queue'';
          params = [];
          params = (if include_count \<noteq> PNone
                    then dict_set params ''includeCount'' (PBool (truthy include_count))
                    else params);
          params = paging_params params start limit
      in sd_get srv self url params (experimental_headers self) sent)"

definition get_issues_in_queue ::
  "server \<Rightarrow> ServiceDesk \<Rightarrow> string \<Rightarrow> string \<Rightarrow> int option arg \<Rightarrow> int option arg
     \<Rightarrow> pyval io" where
  "get_issues_in_queue srv self service_desk_id queue_id start_arg limit_arg sent =
     (let start = arg_or (Some 0) start_arg; limit = arg_or (Some 50) limit_arg;
          url = ''rest/servicedeskapi/servicedesk/'' @ service_desk_id @ ''/queue/'' @ queue_id
                  @ ''/issue'';
          params = paging_params [] start limit
      in sd_get srv self url params (experimental_headers self) sent)"

section \<open>Notions of the specification\<close>

text \<open>
  The specification compares state names case-insensitively. As a notion of its own:
  two strings are the same once every ASCII capital is replaced by its small letter; all
  other code points are compared as they are.
\<close>

definition lower_cp :: "nat \<Rightarrow> nat" where
  "lower_cp c = (if 65 \<le> c \<and> c \<le> 90 then c + 32 else c)"

definition same_ignoring_case :: "pystr \<Rightarrow> pystr \<Rightarrow> bool" where
  "same_ignoring_case s t = (map lower_cp s = map lower_cp t)"

text \<open>
  The specification has the list methods forward \<open>start\<close> and \<open>limit\<close> as integer query
  parameters when they are not \<open>None\<close>: the parameters a call is expected to carry, \<open>start\<close>
  before \<open>limit\<close>.
\<close>

definition forwarded :: "int option \<Rightarrow> int option \<Rightarrow> (string \<times> pyval) list" where
  "forwarded start limit =
     (case start of None \<Rightarrow> [] | Some s \<Rightarrow> [(''start'', PInt s)])
     @ (case limit of None \<Rightarrow> [] | Some l \<Rightarrow> [(''limit'', PInt l)])"

section \<open>Uppercase forms and the state names\<close>

text \<open>
  The code points beyond ASCII whose uppercase form is ASCII text and can occur in a state
  name: dotless i (U+0131) becomes I, long s (U+017F) becomes S, sharp s (U+00DF) becomes
  SS. Every other code point beyond ASCII has an uppercase form with a code point that is
  in none of the four state names.
\<close>

lemma upper_cp_dotless_i: "upper_cp 305 = [73]"
  by (simp add: upper_cp_def upper_special_def upper_runs_def)

lemma upper_cp_long_s: "upper_cp 383 = [83]"
  by (simp add: upper_cp_def upper_special_def upper_runs_def)

lemma upper_cp_sharp_s: "upper_cp 223 = [83, 83]"
  by (simp add: upper_cp_def upper_special_def)

lemma name_letters: "set (str ''CDEGILMNOPRSU'') = {67, 68, 69, 71, 73, 76, 77, 78, 79, 80, 82, 83, 85}"
  by (simp add: str_def)

lemma upper_special_forms:
  "list_all (\<lambda>(c, u). c = 223 \<or> (\<exists>x\<in>set u. x \<notin> set (str ''CDEGILMNOPRSU''))) upper_special"
  unfolding name_letters by (simp add: upper_special_def)

lemma upper_runs_forms:
  "list_all (\<lambda>(start, n, step, img). 128 \<le> img \<or> (n = 1 \<and> step = 1 \<and> (start = 305 \<or> start = 383)))
     upper_runs"
  by (simp add: upper_runs_def)

lemma run_image_forms:
  assumes "list_all (\<lambda>(start, n, step, img). 128 \<le> img \<or> (n = 1 \<and> step = 1 \<and> (start = 305 \<or> start = 383))) rs"
    and "run_image rs c = Some u"
  shows "128 \<le> u \<or> c = 305 \<or> c = 383"
  using assms
proof (induction rs)
  case Nil
  then show ?case by simp
next
  case (Cons r rs)
  obtain start n step img where r: "r = (start, n, step, img)"
    by (cases r) auto
  show ?case
  proof (cases "start \<le> c \<and> c < start + n * step \<and> (c - start) mod step = 0")
    case True
    with Cons.prems r show ?thesis by auto
  next
    case False
    with Cons r show ?thesis by auto
  qed
qed

lemma upper_cp_beyond_ascii:
  assumes "128 \<le> c" and "c \<noteq> 223" and "c \<noteq> 305" and "c \<noteq> 383"
  shows "\<exists>x\<in>set (upper_cp c). x \<notin> set (str ''CDEGILMNOPRSU'')"
proof (cases "map_of upper_special c")
  case (Some u)
  then have "(c, u) \<in> set upper_special"
    by (rule map_of_SomeD)
  with upper_special_forms assms(2) have "\<exists>x\<in>set u. x \<notin> set (str ''CDEGILMNOPRSU'')"
    by (auto simp: list_all_iff)
  with Some assms(1) show ?thesis
    by (simp add: upper_cp_def)
next
  case None
  show ?thesis
  proof (cases "run_image upper_runs c")
    case (Some u)
    from run_image_forms [OF upper_runs_forms Some] assms have "128 \<le> u"
      by simp
    then have "u \<notin> set (str ''CDEGILMNOPRSU'')"
      unfolding name_letters by auto
    with None Some assms(1) show ?thesis
      by (simp add: upper_cp_def)
  next
    case rn: None
    from assms(1) have "c \<notin> set (str ''CDEGILMNOPRSU'')"
      unfolding name_letters by auto
    with None rn assms(1) show ?thesis
      by (simp add: upper_cp_def)
  qed
qed

text \<open>
  If the uppercase form of \<open>s\<close> is a state name, then \<open>s\<close> is ASCII text, unless \<open>s\<close> has a
  dotless i and the name an I, or \<open>s\<close> has a long s and the name an S.
\<close>

lemma sublist_upper_cp: "c \<in> set s \<Longrightarrow> sublist (upper_cp c) (upper s)"
proof -
  assume "c \<in> set s"
  then obtain xs ys where "s = xs @ c # ys"
    by (auto dest: split_list)
  then show ?thesis
    by (simp add: upper_def)
qed

lemma upper_eq_ascii_name:
  assumes "upper s = t" and "set t \<subseteq> set (str ''CDEGILMNOPRSU'')" and "\<not> sublist [83, 83] t"
    and "305 \<in> set s \<longrightarrow> 73 \<notin> set t" and "383 \<in> set s \<longrightarrow> 83 \<notin> set t"
  shows "\<forall>c\<in>set s. c < 128"
proof (rule ccontr)
  assume "\<not> (\<forall>c\<in>set s. c < 128)"
  then obtain c where c: "c \<in> set s" "128 \<le> c"
    by (auto simp: not_less)
  from sublist_upper_cp [OF c(1)] assms(1) have sub: "sublist (upper_cp c) t"
    by simp
  then have incl: "set (upper_cp c) \<subseteq> set t"
    by (rule set_mono_sublist)
  consider "c = 223" | "c = 305" | "c = 383" | "c \<noteq> 223" "c \<noteq> 305" "c \<noteq> 383"
    by blast
  then show False
  proof cases
    case 1
    with sub assms(3) show False by (simp add: upper_cp_sharp_s)
  next
    case 2
    with incl c(1) assms(4) show False by (simp add: upper_cp_dotless_i)
  next
    case 3
    with incl c(1) assms(5) show False by (simp add: upper_cp_long_s)
  next
    case 4
    from upper_cp_beyond_ascii [OF c(2) 4] incl assms(2) show False
      by blast
  qed
qed

text \<open>On ASCII text \<open>upper\<close> and the comparison that ignores case agree.\<close>

lemma upper_ascii: "\<forall>c\<in>set s. c < 128 \<Longrightarrow> upper s = map ascii_upper s"
  by (induction s) (simp_all add: upper_def upper_cp_def)

lemma lower_ascii_upper: "lower_cp (ascii_upper c) = lower_cp c"
  by (auto simp: lower_cp_def ascii_upper_def)

lemma ascii_upper_lower: "ascii_upper (lower_cp c) = ascii_upper c"
  by (auto simp: lower_cp_def ascii_upper_def)

lemma same_ignoring_case_ascii:
  assumes "same_ignoring_case s t" and "\<forall>c\<in>set t. c < 128"
  shows "\<forall>c\<in>set s. c < 128"
proof
  fix c assume "c \<in> set s"
  then have "lower_cp c \<in> set (map lower_cp s)"
    by simp
  with assms(1) have "lower_cp c \<in> set (map lower_cp t)"
    by (simp add: same_ignoring_case_def)
  then obtain d where "d \<in> set t" "lower_cp c = lower_cp d"
    by auto
  with assms(2) have "lower_cp c < 128"
    by (auto simp: lower_cp_def split: if_splits)
  then show "c < 128"
    by (auto simp: lower_cp_def split: if_splits)
qed

lemma same_ignoring_case_upper:
  assumes "same_ignoring_case s t" and "\<forall>c\<in>set t. c < 128" and "map ascii_upper t = t"
  shows "upper s = t"
proof -
  from assms(1) have "map ascii_upper (map lower_cp s) = map ascii_upper (map lower_cp t)"
    by (simp add: same_ignoring_case_def)
  then have "map ascii_upper s = map ascii_upper t"
    by (simp add: o_def ascii_upper_lower)
  with assms(3) upper_ascii [OF same_ignoring_case_ascii [OF assms(1,2)]] show ?thesis
    by simp
qed

lemma upper_same_ignoring_case:
  assumes "upper s = t" and "\<forall>c\<in>set s. c < 128"
  shows "same_ignoring_case s t"
proof -
  from assms have "map lower_cp t = map lower_cp (map ascii_upper s)"
    by (simp add: upper_ascii)
  also have "\<dots> = map lower_cp s"
    by (simp add: o_def lower_ascii_upper)
  finally show ?thesis
    by (simp add: same_ignoring_case_def)
qed



lemma upper_eq_name_iff:
  assumes "\<forall>c\<in>set t. c < 128" and "map ascii_upper t = t"
    and "set t \<subseteq> set (str ''CDEGILMNOPRSU'')" and "\<not> sublist [83, 83] t"
    and "305 \<in> set s \<longrightarrow> 73 \<notin> set t" and "383 \<in> set s \<longrightarrow> 83 \<notin> set t"
  shows "upper s = t \<longleftrightarrow> same_ignoring_case s t"
proof
  assume u: "upper s = t"
  from upper_eq_ascii_name [OF u assms(3,4,5,6)] have "\<forall>c\<in>set s. c < 128" .
  with u show "same_ignoring_case s t"
    by (rule upper_same_ignoring_case)
next
  assume "same_ignoring_case s t"
  then show "upper s = t"
    using assms(1,2) by (rule same_ignoring_case_upper)
qed

lemma name_OPEN:
  "\<forall>c\<in>set (str ''OPEN''). c < 128" "map ascii_upper (str ''OPEN'') = str ''OPEN''"
  "set (str ''OPEN'') \<subseteq> set (str ''CDEGILMNOPRSU'')" "\<not> sublist [83, 83] (str ''OPEN'')"
  "73 \<notin> set (str ''OPEN'')" "83 \<notin> set (str ''OPEN'')"
  by (simp_all add: str_def ascii_upper_def sublist_Cons_right)

lemma name_MERGED:
  "\<forall>c\<in>set (str ''MERGED''). c < 128" "map ascii_upper (str ''MERGED'') = str ''MERGED''"
  "set (str ''MERGED'') \<subseteq> set (str ''CDEGILMNOPRSU'')" "\<not> sublist [83, 83] (str ''MERGED'')"
  "73 \<notin> set (str ''MERGED'')" "83 \<notin> set (str ''MERGED'')"
  by (simp_all add: str_def ascii_upper_def sublist_Cons_right)

lemma name_DECLINED:
  "\<forall>c\<in>set (str ''DECLINED''). c < 128" "map ascii_upper (str ''DECLINED'') = str ''DECLINED''"
  "set (str ''DECLINED'') \<subseteq> set (str ''CDEGILMNOPRSU'')"
  "\<not> sublist [83, 83] (str ''DECLINED'')" "83 \<notin> set (str ''DECLINED'')"
  by (simp_all add: str_def ascii_upper_def sublist_Cons_right)

lemma name_SUPERSEDED:
  "\<forall>c\<in>set (str ''SUPERSEDED''). c < 128"
  "map ascii_upper (str ''SUPERSEDED'') = str ''SUPERSEDED''"
  "set (str ''SUPERSEDED'') \<subseteq> set (str ''CDEGILMNOPRSU'')"
  "\<not> sublist [83, 83] (str ''SUPERSEDED'')" "73 \<notin> set (str ''SUPERSEDED'')"
  by (simp_all add: str_def ascii_upper_def sublist_Cons_right)

section \<open>State predicates of a pull request\<close>

lemma is_open_iff:
  "map_of (pr_data pr) ''state'' = Some (PStr s) \<Longrightarrow>
     is_open pr = Inr (same_ignoring_case s (str ''OPEN''))"
  by (simp add: is_open_def get_data_def PR_STATE_OPEN_def
      upper_eq_name_iff [OF name_OPEN(1,2,3,4)] name_OPEN(5,6))

lemma is_merged_iff:
  "map_of (pr_data pr) ''state'' = Some (PStr s) \<Longrightarrow>
     is_merged pr = Inr (same_ignoring_case s (str ''MERGED''))"
  by (simp add: is_merged_def get_data_def PR_STATE_MERGED_def
      upper_eq_name_iff [OF name_MERGED(1,2,3,4)] name_MERGED(5,6))

lemma is_declined_iff:
  "map_of (pr_data pr) ''state'' = Some (PStr s) \<Longrightarrow> 305 \<notin> set s \<Longrightarrow>
     is_declined pr = Inr (same_ignoring_case s (str ''DECLINED''))"
  by (simp add: is_declined_def get_data_def PR_STATE_DECLINED_def
      upper_eq_name_iff [OF name_DECLINED(1,2,3,4)] name_DECLINED(5))

lemma is_superseded_iff:
  "map_of (pr_data pr) ''state'' = Some (PStr s) \<Longrightarrow> 383 \<notin> set s \<Longrightarrow>
     is_superseded pr = Inr (same_ignoring_case s (str ''SUPERSEDED''))"
  by (simp add: is_superseded_def get_data_def PR_STATE_SUPERSEDED_def
      upper_eq_name_iff [OF name_SUPERSEDED(1,2,3,4)] name_SUPERSEDED(5))


lemma same_ignoring_case_length: "same_ignoring_case s t \<Longrightarrow> length s = length t"
  unfolding same_ignoring_case_def by (rule map_eq_imp_length_eq)

lemma state_names_exclusive:
  "\<not> (same_ignoring_case s (str ''OPEN'') \<and> same_ignoring_case s (str ''MERGED''))"
  "\<not> (same_ignoring_case s (str ''OPEN'') \<and> same_ignoring_case s (str ''DECLINED''))"
  "\<not> (same_ignoring_case s (str ''OPEN'') \<and> same_ignoring_case s (str ''SUPERSEDED''))"
  "\<not> (same_ignoring_case s (str ''MERGED'') \<and> same_ignoring_case s (str ''DECLINED''))"
  "\<not> (same_ignoring_case s (str ''MERGED'') \<and> same_ignoring_case s (str ''SUPERSEDED''))"
  "\<not> (same_ignoring_case s (str ''DECLINED'') \<and> same_ignoring_case s (str ''SUPERSEDED''))"
  by (auto dest!: same_ignoring_case_length simp: str_def)

lemma state_name_ascii:
  assumes "same_ignoring_case s (str ''OPEN'') \<or> same_ignoring_case s (str ''MERGED'')
           \<or> same_ignoring_case s (str ''DECLINED'') \<or> same_ignoring_case s (str ''SUPERSEDED'')"
  shows "305 \<notin> set s \<and> 383 \<notin> set s"
proof -
  from assms have "\<forall>c\<in>set s. c < 128"
    using same_ignoring_case_ascii [OF _ name_OPEN(1)] same_ignoring_case_ascii [OF _ name_MERGED(1)]
      same_ignoring_case_ascii [OF _ name_DECLINED(1)]
      same_ignoring_case_ascii [OF _ name_SUPERSEDED(1)]
    by blast
  then show ?thesis by auto
qed

text \<open>
  Claim C5. For a pull request whose \<open>state\<close> field is, case-insensitively, one of OPEN,
  MERGED, DECLINED and SUPERSEDED, the predicate of that name returns true and the other
  three return false: OPEN with \<open>is_open\<close>, MERGED with \<open>is_merged\<close>, DECLINED with
  \<open>is_declined\<close>, SUPERSEDED with \<open>is_superseded\<close>.
\<close>

theorem state_predicates_exclusive:
  assumes "map_of (pr_data pr) ''state'' = Some (PStr s)"
  shows "(same_ignoring_case s (str ''OPEN'') \<longrightarrow>
            is_open pr = Inr True \<and> is_merged pr = Inr False
            \<and> is_declined pr = Inr False \<and> is_superseded pr = Inr False)
       \<and> (same_ignoring_case s (str ''MERGED'') \<longrightarrow>
            is_open pr = Inr False \<and> is_merged pr = Inr True
            \<and> is_declined pr = Inr False \<and> is_superseded pr = Inr False)
       \<and> (same_ignoring_case s (str ''DECLINED'') \<longrightarrow>
            is_open pr = Inr False \<and> is_merged pr = Inr False
            \<and> is_declined pr = Inr True \<and> is_superseded pr = Inr False)
       \<and> (same_ignoring_case s (str ''SUPERSEDED'') \<longrightarrow>
            is_open pr = Inr False \<and> is_merged pr = Inr False
            \<and> is_declined pr = Inr False \<and> is_superseded pr = Inr True)"
proof -
  have "is_open pr = Inr (same_ignoring_case s (str ''OPEN''))
        \<and> is_merged pr = Inr (same_ignoring_case s (str ''MERGED''))
        \<and> is_declined pr = Inr (same_ignoring_case s (str ''DECLINED''))
        \<and> is_superseded pr = Inr (same_ignoring_case s (str ''SUPERSEDED''))"
    if "same_ignoring_case s (str ''OPEN'') \<or> same_ignoring_case s (str ''MERGED'')
        \<or> same_ignoring_case s (str ''DECLINED'') \<or> same_ignoring_case s (str ''SUPERSEDED'')"
    using state_name_ascii [OF that]
    by (simp add: is_open_iff [OF assms] is_merged_iff [OF assms] is_declined_iff [OF assms]
        is_superseded_iff [OF assms])
  then show ?thesis
    using state_names_exclusive [of s] by auto
qed

text \<open>The four cases at the states \<open>Open\<close>, \<open>MERGED\<close>, \<open>declined\<close> and \<open>SuperSeded\<close>.\<close>

theorem state_predicates_exclusive_witness:
  "is_open \<lparr>pr_url = ''u'', pr_data = [(''id'', PInt 1), (''state'', PStr (str ''Open''))]\<rparr>
     = Inr True
   \<and> is_merged \<lparr>pr_url = ''u'', pr_data = [(''id'', PInt 1), (''state'', PStr (str ''Open''))]\<rparr>
     = Inr False
   \<and> is_declined \<lparr>pr_url = ''u'', pr_data = [(''id'', PInt 1), (''state'', PStr (str ''Open''))]\<rparr>
     = Inr False
   \<and> is_superseded \<lparr>pr_url = ''u'', pr_data = [(''id'', PInt 1), (''state'', PStr (str ''Open''))]\<rparr>
     = Inr False
   \<and> is_merged \<lparr>pr_url = ''u'', pr_data = [(''state'', PStr (str ''MERGED''))]\<rparr> = Inr True
   \<and> is_open \<lparr>pr_url = ''u'', pr_data = [(''state'', PStr (str ''MERGED''))]\<rparr> = Inr False
   \<and> is_declined \<lparr>pr_url = ''u'', pr_data = [(''state'', PStr (str ''declined''))]\<rparr> = Inr True
   \<and> is_superseded \<lparr>pr_url = ''u'', pr_data = [(''state'', PStr (str ''declined''))]\<rparr>
     = Inr False
   \<and> is_superseded \<lparr>pr_url = ''u'', pr_data = [(''state'', PStr (str ''SuperSeded''))]\<rparr>
     = Inr True
   \<and> is_declined \<lparr>pr_url = ''u'', pr_data = [(''state'', PStr (str ''SuperSeded''))]\<rparr>
     = Inr False"
proof -
  have o: "same_ignoring_case (str ''Open'') (str ''OPEN'')"
    by (simp add: same_ignoring_case_def lower_cp_def str_def)
  have m: "same_ignoring_case (str ''MERGED'') (str ''MERGED'')"
    by (simp add: same_ignoring_case_def)
  have d: "same_ignoring_case (str ''declined'') (str ''DECLINED'')"
    by (simp add: same_ignoring_case_def lower_cp_def str_def)
  have s: "same_ignoring_case (str ''SuperSeded'') (str ''SUPERSEDED'')"
    by (simp add: same_ignoring_case_def lower_cp_def str_def)
  show ?thesis
    using o m d s
      state_predicates_exclusive
        [of "\<lparr>pr_url = ''u'', pr_data = [(''id'', PInt 1), (''state'', PStr (str ''Open''))]\<rparr>"
          "str ''Open''"]
      state_predicates_exclusive
        [of "\<lparr>pr_url = ''u'', pr_data = [(''state'', PStr (str ''MERGED''))]\<rparr>" "str ''MERGED''"]
      state_predicates_exclusive
        [of "\<lparr>pr_url = ''u'', pr_data = [(''state'', PStr (str ''declined''))]\<rparr>"
          "str ''declined''"]
      state_predicates_exclusive
        [of "\<lparr>pr_url = ''u'', pr_data = [(''state'', PStr (str ''SuperSeded''))]\<rparr>"
          "str ''SuperSeded''"]
    by simp
qed





section \<open>Actions on a pull request\<close>

lemma check_if_open_closed:
  assumes "map_of (pr_data pr) ''state'' = Some (PStr s)"
    and "\<not> same_ignoring_case s (str ''OPEN'')"
  shows "check_if_open pr = Inl (PyException ''Pull Request isn't open'')"
  using assms(2) by (simp add: check_if_open_def is_open_iff [OF assms(1)])

lemma check_if_open_open:
  assumes "map_of (pr_data pr) ''state'' = Some (PStr s)" and "same_ignoring_case s (str ''OPEN'')"
  shows "check_if_open pr = Inr ()"
  using assms(2) by (simp add: check_if_open_def is_open_iff [OF assms(1)])

text \<open>
  Claim C3. For a pull request whose cached \<open>state\<close> is a string other than OPEN
  (case-insensitively), each of \<open>approve\<close>, \<open>unapprove\<close>, \<open>decline\<close> and \<open>merge\<close> (whatever its
  arguments) fails with the invalid-state error \<open>Exception("Pull Request isn't open")\<close>, and the
  list of requests sent is unchanged: no POST or DELETE is issued.
\<close>

theorem actions_fail_when_not_open:
  assumes "map_of (pr_data pr) ''state'' = Some (PStr s)"
    and "\<not> same_ignoring_case s (str ''OPEN'')"
  shows "approve srv pr sent = (Inl (PyException ''Pull Request isn't open''), sent)
       \<and> unapprove srv pr sent = (Inl (PyException ''Pull Request isn't open''), sent)
       \<and> decline srv pr sent = (Inl (PyException ''Pull Request isn't open''), sent)
       \<and> merge srv pr merge_strategy close_source_branch_arg sent
           = (Inl (PyException ''Pull Request isn't open''), sent)"
  by (simp add: approve_def unapprove_def decline_def merge_def Let_def raise_def
      check_if_open_closed [OF assms])

text \<open>A merged pull request, with nothing sent before the calls.\<close>

theorem actions_fail_when_not_open_witness:
  "approve (\<lambda>r. Inr PNone) \<lparr>pr_url = ''u'', pr_data = [(''state'', PStr (str ''MERGED''))]\<rparr> []
     = (Inl (PyException ''Pull Request isn't open''), [])
   \<and> unapprove (\<lambda>r. Inr PNone) \<lparr>pr_url = ''u'', pr_data = [(''state'', PStr (str ''MERGED''))]\<rparr> []
     = (Inl (PyException ''Pull Request isn't open''), [])
   \<and> decline (\<lambda>r. Inr PNone) \<lparr>pr_url = ''u'', pr_data = [(''state'', PStr (str ''MERGED''))]\<rparr> []
     = (Inl (PyException ''Pull Request isn't open''), [])
   \<and> merge (\<lambda>r. Inr PNone) \<lparr>pr_url = ''u'', pr_data = [(''state'', PStr (str ''MERGED''))]\<rparr>
       (Given (PStr (str ''squash''))) Omitted []
     = (Inl (PyException ''Pull Request isn't open''), [])"
proof -
  have h: "map_of (pr_data \<lparr>pr_url = ''u'', pr_data = [(''state'', PStr (str ''MERGED''))]\<rparr>)
             ''state'' = Some (PStr (str ''MERGED''))"
    by simp
  have n: "\<not> same_ignoring_case (str ''MERGED'') (str ''OPEN'')"
    by (simp add: same_ignoring_case_def str_def)
  show ?thesis
    by (rule actions_fail_when_not_open [OF h n])
qed

text \<open>
  Claim C2 says that \<open>merge\<close> with a strategy outside the allowed set fails with the
  invalid-argument error whatever the cached state is. The open check comes first in the
  source: on a merged pull request the call fails with the invalid-state error instead.
\<close>

theorem merge_invalid_strategy_counterexample:
  "merge (\<lambda>r. Inr PNone) \<lparr>pr_url = ''u'', pr_data = [(''state'', PStr (str ''MERGED''))]\<rparr>
     (Given (PStr (str ''invalid''))) Omitted []
   = (Inl (PyException ''Pull Request isn't open''), [])
   \<and> PStr (str ''invalid'') \<notin> set (map (\<lambda>s. PStr (str s)) PR_MERGE_STRATEGIES)"
proof -
  have h: "map_of (pr_data \<lparr>pr_url = ''u'', pr_data = [(''state'', PStr (str ''MERGED''))]\<rparr>)
             ''state'' = Some (PStr (str ''MERGED''))"
    by simp
  have n: "\<not> same_ignoring_case (str ''MERGED'') (str ''OPEN'')"
    by (simp add: same_ignoring_case_def str_def)
  have a: "merge (\<lambda>r. Inr PNone)
       \<lparr>pr_url = ''u'', pr_data = [(''state'', PStr (str ''MERGED''))]\<rparr>
       (Given (PStr (str ''invalid''))) Omitted []
     = (Inl (PyException ''Pull Request isn't open''), [])"
    by (simp add: merge_def Let_def raise_def check_if_open_closed [OF h n])
  have b: "PStr (str ''invalid'') \<notin> set (map (\<lambda>s. PStr (str s)) PR_MERGE_STRATEGIES)"
    by (simp add: PR_MERGE_STRATEGIES_def PR_MERGE_COMMIT_def PR_MERGE_SQUASH_def
        PR_MERGE_FF_def str_def)
  from a b show ?thesis ..
qed

text \<open>
  Claim C2, amended. For a pull request whose cached \<open>state\<close> is a string, \<open>merge\<close> with a
  strategy outside \<open>PR_MERGE_STRATEGIES\<close> issues no request and fails: with the
  invalid-argument error \<open>ValueError\<close> when the state is OPEN (case-insensitively), and with
  the invalid-state error of \<open>_check_if_open\<close> otherwise.
\<close>

theorem merge_invalid_strategy:
  assumes "map_of (pr_data pr) ''state'' = Some (PStr s)"
    and "arg_or (PStr (str PR_MERGE_COMMIT)) merge_strategy
           \<notin> set (map (\<lambda>s. PStr (str s)) PR_MERGE_STRATEGIES)"
  shows "(same_ignoring_case s (str ''OPEN'') \<longrightarrow>
            merge srv pr merge_strategy close_source_branch_arg sent
              = (Inl (ValueError (''merge_stragegy must be '' @ repr_list PR_MERGE_STRATEGIES)), sent))
       \<and> (\<not> same_ignoring_case s (str ''OPEN'') \<longrightarrow>
            merge srv pr merge_strategy close_source_branch_arg sent
              = (Inl (PyException ''Pull Request isn't open''), sent))"
  using assms(2)
  by (auto simp: merge_def Let_def raise_def check_if_open_closed [OF assms(1)]
      check_if_open_open [OF assms(1)])

text \<open>The strategy \<open>invalid\<close> on an open and on a declined pull request.\<close>

theorem merge_invalid_strategy_witness:
  "merge (\<lambda>r. Inr PNone) \<lparr>pr_url = ''u'', pr_data = [(''state'', PStr (str ''open''))]\<rparr>
     (Given (PStr (str ''invalid''))) Omitted []
   = (Inl (ValueError ''merge_stragegy must be ['merge_commit', 'squash', 'fast_forward']''), [])
   \<and> merge (\<lambda>r. Inr PNone) \<lparr>pr_url = ''u'', pr_data = [(''state'', PStr (str ''DECLINED''))]\<rparr>
     (Given (PStr (str ''invalid''))) Omitted []
   = (Inl (PyException ''Pull Request isn't open''), [])"
proof -
  have b: "arg_or (PStr (str PR_MERGE_COMMIT)) (Given (PStr (str ''invalid'')))
             \<notin> set (map (\<lambda>s. PStr (str s)) PR_MERGE_STRATEGIES)"
    by (simp add: PR_MERGE_STRATEGIES_def PR_MERGE_COMMIT_def PR_MERGE_SQUASH_def
        PR_MERGE_FF_def str_def)
  have o: "same_ignoring_case (str ''open'') (str ''OPEN'')"
    by (simp add: same_ignoring_case_def lower_cp_def str_def)
  have d: "\<not> same_ignoring_case (str ''DECLINED'') (str ''OPEN'')"
    by (simp add: same_ignoring_case_def str_def)
  have r: "''merge_stragegy must be '' @ repr_list PR_MERGE_STRATEGIES
             = ''merge_stragegy must be ['merge_commit', 'squash', 'fast_forward']''"
    by code_simp
  have ho: "map_of (pr_data \<lparr>pr_url = ''u'', pr_data = [(''state'', PStr (str ''open''))]\<rparr>)
              ''state'' = Some (PStr (str ''open''))"
    by simp
  have hd: "map_of (pr_data \<lparr>pr_url = ''u'', pr_data = [(''state'', PStr (str ''DECLINED''))]\<rparr>)
              ''state'' = Some (PStr (str ''DECLINED''))"
    by simp
  show ?thesis
    using o d merge_invalid_strategy [OF ho b, of "\<lambda>r. Inr PNone" Omitted "[]"]
      merge_invalid_strategy [OF hd b, of "\<lambda>r. Inr PNone" Omitted "[]"]
    unfolding r by blast
qed

text \<open>
  Claim C4. For a message that is \<open>None\<close> or a string, \<open>comment\<close> raises the invalid-argument
  error \<open>ValueError\<close> and sends nothing exactly when the message is \<open>None\<close> or the empty
  string; for any other message it sends exactly one POST to the sub-path \<open>comments\<close> with the
  body \<open>{"content": {"raw": message}}\<close> and returns the server's answer. The pull request is
  arbitrary: its state is never consulted.
\<close>

theorem comment_empty_or_post:
  assumes "raw_message = PNone \<or> (\<exists>s. raw_message = PStr s)"
  shows "((raw_message = PNone \<or> raw_message = PStr [])
            \<longleftrightarrow> comment srv pr raw_message sent = (Inl (ValueError ''No message set''), sent))
       \<and> (\<not> (raw_message = PNone \<or> raw_message = PStr []) \<longrightarrow>
            comment srv pr raw_message sent
              = (srv \<lparr>meth = POST, base = pr_url pr, path = ''comments'', query_params = [],
                       headers = [],
                       body = Some (PDict [(''content'', PDict [(''raw'', raw_message)])])\<rparr>,
                 sent @ [\<lparr>meth = POST, base = pr_url pr, path = ''comments'',
                       query_params = [], headers = [],
                       body = Some (PDict [(''content'', PDict [(''raw'', raw_message)])])\<rparr>]))"
  using assms by (auto simp: comment_def raise_def post_def send_def)

text \<open>The messages \<open>lgtm\<close>, the empty string and \<open>None\<close> on a merged pull request.\<close>

theorem comment_empty_or_post_witness:
  "comment (\<lambda>r. Inr PNone) \<lparr>pr_url = ''u'', pr_data = [(''state'', PStr (str ''MERGED''))]\<rparr>
     (PStr (str ''lgtm'')) []
   = (Inr PNone,
      [\<lparr>meth = POST, base = ''u'', path = ''comments'', query_params = [], headers = [],
        body = Some (PDict [(''content'', PDict [(''raw'', PStr (str ''lgtm''))])])\<rparr>])
   \<and> comment (\<lambda>r. Inr PNone) \<lparr>pr_url = ''u'', pr_data = [(''state'', PStr (str ''MERGED''))]\<rparr>
     (PStr []) [] = (Inl (ValueError ''No message set''), [])
   \<and> comment (\<lambda>r. Inr PNone) \<lparr>pr_url = ''u'', pr_data = [(''state'', PStr (str ''MERGED''))]\<rparr>
     PNone [] = (Inl (ValueError ''No message set''), [])"
  using
    comment_empty_or_post [of "PStr (str ''lgtm'')" "\<lambda>r. Inr PNone"
      "\<lparr>pr_url = ''u'', pr_data = [(''state'', PStr (str ''MERGED''))]\<rparr>" "[]"]
    comment_empty_or_post [of "PStr []" "\<lambda>r. Inr PNone"
      "\<lparr>pr_url = ''u'', pr_data = [(''state'', PStr (str ''MERGED''))]\<rparr>" "[]"]
    comment_empty_or_post [of "PNone" "\<lambda>r. Inr PNone"
      "\<lparr>pr_url = ''u'', pr_data = [(''state'', PStr (str ''MERGED''))]\<rparr>" "[]"]
  by (simp add: str_def)

lemma close_source_branch_present:
  "map_of (pr_data pr) ''close_source_branch'' = Some flag \<Longrightarrow> close_source_branch pr = flag"
  by (simp add: close_source_branch_def get_data_def)

text \<open>
  Claim C7. For an open pull request with a cached \<open>close_source_branch\<close> flag, \<open>merge\<close> called
  without \<open>close_source_branch\<close> sends one POST to \<open>merge\<close> whose body carries the cached flag
  as \<open>close_source_branch\<close>; its \<open>merge_strategy\<close> is \<open>merge_commit\<close> when no strategy is
  supplied, and the supplied strategy when it is one of the allowed ones.
\<close>

theorem merge_defaults:
  assumes "map_of (pr_data pr) ''state'' = Some (PStr s)" and "same_ignoring_case s (str ''OPEN'')"
    and "map_of (pr_data pr) ''close_source_branch'' = Some flag"
  shows "merge srv pr Omitted Omitted sent
           = (srv \<lparr>meth = POST, base = pr_url pr, path = ''merge'', query_params = [],
                    headers = [],
                    body = Some (PDict [(''close_source_branch'', flag),
                                        (''merge_strategy'', PStr (str ''merge_commit''))])\<rparr>,
              sent @ [\<lparr>meth = POST, base = pr_url pr, path = ''merge'', query_params = [],
                    headers = [],
                    body = Some (PDict [(''close_source_branch'', flag),
                                        (''merge_strategy'', PStr (str ''merge_commit''))])\<rparr>])
       \<and> (strategy \<in> set PR_MERGE_STRATEGIES \<longrightarrow>
            merge srv pr (Given (PStr (str strategy))) Omitted sent
              = (srv \<lparr>meth = POST, base = pr_url pr, path = ''merge'', query_params = [],
                       headers = [],
                       body = Some (PDict [(''close_source_branch'', flag),
                                           (''merge_strategy'', PStr (str strategy))])\<rparr>,
                 sent @ [\<lparr>meth = POST, base = pr_url pr, path = ''merge'', query_params = [],
                       headers = [],
                       body = Some (PDict [(''close_source_branch'', flag),
                                           (''merge_strategy'', PStr (str strategy))])\<rparr>]))"
  by (auto simp: merge_def Let_def check_if_open_open [OF assms(1,2)]
      close_source_branch_present [OF assms(3)] py_or_def post_def send_def
      PR_MERGE_STRATEGIES_def PR_MERGE_COMMIT_def)

text \<open>
  Claim C9. For an open pull request with a cached \<open>close_source_branch\<close> flag, \<open>merge\<close> called
  with \<open>close_source_branch=False\<close> (and an allowed or omitted strategy) sends a body whose
  \<open>close_source_branch\<close> is the cached flag, not the caller's \<open>False\<close>.
\<close>

theorem merge_explicit_False_overridden:
  assumes "map_of (pr_data pr) ''state'' = Some (PStr s)" and "same_ignoring_case s (str ''OPEN'')"
    and "map_of (pr_data pr) ''close_source_branch'' = Some flag"
    and "arg_or (PStr (str PR_MERGE_COMMIT)) merge_strategy
           \<in> set (map (\<lambda>s. PStr (str s)) PR_MERGE_STRATEGIES)"
  shows "merge srv pr merge_strategy (Given (PBool False)) sent
           = (srv \<lparr>meth = POST, base = pr_url pr, path = ''merge'', query_params = [],
                    headers = [],
                    body = Some (PDict [(''close_source_branch'', flag),
                                        (''merge_strategy'',
                                           arg_or (PStr (str PR_MERGE_COMMIT)) merge_strategy)])\<rparr>,
              sent @ [\<lparr>meth = POST, base = pr_url pr, path = ''merge'', query_params = [],
                    headers = [],
                    body = Some (PDict [(''close_source_branch'', flag),
                                        (''merge_strategy'',
                                           arg_or (PStr (str PR_MERGE_COMMIT)) merge_strategy)])\<rparr>])"
  using assms(4)
  by (simp add: merge_def Let_def check_if_open_open [OF assms(1,2)]
      close_source_branch_present [OF assms(3)] py_or_def post_def send_def)

text \<open>An open pull request whose cached flag is \<open>True\<close>: no strategy, and \<open>squash\<close>.\<close>

theorem merge_defaults_witness:
  "merge (\<lambda>r. Inr PNone)
     \<lparr>pr_url = ''u'',
       pr_data = [(''state'', PStr (str ''OPEN'')), (''close_source_branch'', PBool True)]\<rparr>
     Omitted Omitted []
   = (Inr PNone,
      [\<lparr>meth = POST, base = ''u'', path = ''merge'', query_params = [], headers = [],
        body = Some (PDict [(''close_source_branch'', PBool True),
                            (''merge_strategy'', PStr (str ''merge_commit''))])\<rparr>])
   \<and> merge (\<lambda>r. Inr PNone)
     \<lparr>pr_url = ''u'',
       pr_data = [(''state'', PStr (str ''OPEN'')), (''close_source_branch'', PBool True)]\<rparr>
     (Given (PStr (str ''squash''))) Omitted []
   = (Inr PNone,
      [\<lparr>meth = POST, base = ''u'', path = ''merge'', query_params = [], headers = [],
        body = Some (PDict [(''close_source_branch'', PBool True),
                            (''merge_strategy'', PStr (str ''squash''))])\<rparr>])"
proof -
  let ?pr = "\<lparr>pr_url = ''u'',
    pr_data = [(''state'', PStr (str ''OPEN'')), (''close_source_branch'', PBool True)]\<rparr>"
  have h: "map_of (pr_data ?pr) ''state'' = Some (PStr (str ''OPEN''))" by simp
  have o: "same_ignoring_case (str ''OPEN'') (str ''OPEN'')"
    by (simp add: same_ignoring_case_def)
  have f: "map_of (pr_data ?pr) ''close_source_branch'' = Some (PBool True)" by simp
  have m: "''squash'' \<in> set PR_MERGE_STRATEGIES" by code_simp
  show ?thesis
    using m merge_defaults [OF h o f, of "\<lambda>r. Inr PNone" "[]" "''squash''"]
    by simp
qed

text \<open>The same pull request, asked not to close the source branch: the body says \<open>True\<close>.\<close>

theorem merge_explicit_False_overridden_witness:
  "merge (\<lambda>r. Inr PNone)
     \<lparr>pr_url = ''u'',
       pr_data = [(''state'', PStr (str ''OPEN'')), (''close_source_branch'', PBool True)]\<rparr>
     (Given (PStr (str ''squash''))) (Given (PBool False)) []
   = (Inr PNone,
      [\<lparr>meth = POST, base = ''u'', path = ''merge'', query_params = [], headers = [],
        body = Some (PDict [(''close_source_branch'', PBool True),
                            (''merge_strategy'', PStr (str ''squash''))])\<rparr>])"
proof -
  let ?pr = "\<lparr>pr_url = ''u'',
    pr_data = [(''state'', PStr (str ''OPEN'')), (''close_source_branch'', PBool True)]\<rparr>"
  have h: "map_of (pr_data ?pr) ''state'' = Some (PStr (str ''OPEN''))" by simp
  have o: "same_ignoring_case (str ''OPEN'') (str ''OPEN'')"
    by (simp add: same_ignoring_case_def)
  have f: "map_of (pr_data ?pr) ''close_source_branch'' = Some (PBool True)" by simp
  have m: "arg_or (PStr (str PR_MERGE_COMMIT)) (Given (PStr (str ''squash'')))
             \<in> set (map (\<lambda>s. PStr (str s)) PR_MERGE_STRATEGIES)"
    by (simp add: PR_MERGE_STRATEGIES_def PR_MERGE_SQUASH_def)
  show ?thesis
    using merge_explicit_False_overridden [OF h o f m, of "\<lambda>r. Inr PNone" "[]"]
    by simp
qed


section \<open>Enumerating the collection\<close>

lemma get_object_error_marker:
  "map_of d ''errors'' = Some e \<Longrightarrow> get_object self url_joiner d = Inr None"
  by (simp add: get_object_def)

lemma get_object_well_formed:
  assumes "map_of d ''errors'' = None" and "map_of d ''id'' = Some i"
    and "map_of d ''type'' = None \<or> map_of d ''type'' = Some (PStr (str ''pullrequest''))"
  shows "get_object self url_joiner d
           = Inr (Some \<lparr>pr_url = url_joiner (prs_url self) i, pr_data = d\<rparr>)"
  using assms by (auto simp: get_object_def PullRequest_init_def)

text \<open>
  Whatever the pager yields: as long as every record has an \<open>errors\<close> key or is well formed
  (an \<open>id\<close>, a type tag that is absent or \<open>pullrequest\<close>), \<open>each\<close> yields one item per record,
  in the pager's order, \<open>None\<close> for a record with an \<open>errors\<close> key and the wrapped pull
  request for any other. No record is skipped.
\<close>

lemma each_loop_one_item_per_record:
  assumes "\<forall>d\<in>set records. map_of d ''errors'' \<noteq> None
             \<or> (\<exists>i. map_of d ''id'' = Some i)
               \<and> (map_of d ''type'' = None
                  \<or> map_of d ''type'' = Some (PStr (str ''pullrequest'')))"
  shows "each_loop self url_joiner records fin
           = (map (\<lambda>d. if map_of d ''errors'' \<noteq> None then None
                       else Some \<lparr>pr_url = url_joiner (prs_url self) (the (map_of d ''id'')),
                                  pr_data = d\<rparr>) records,
              fin)"
  using assms
proof (induction records)
  case Nil
  then show ?case by simp
next
  case (Cons d ds)
  show ?case
  proof (cases "map_of d ''errors''")
    case None
    with Cons.prems obtain i where i: "map_of d ''id'' = Some i"
      and t: "map_of d ''type'' = None \<or> map_of d ''type'' = Some (PStr (str ''pullrequest''))"
      by auto
    from Cons show ?thesis
      by (simp add: get_object_well_formed [OF None i t] None i)
  next
    case (Some e)
    from Cons show ?thesis
      by (simp add: get_object_error_marker [OF Some] Some)
  qed
qed

lemma each_one_item_per_record:
  assumes "paged (each_params (arg_or PNone q) (arg_or PNone sort_arg)) = (records, fin)"
    and "\<forall>d\<in>set records. map_of d ''errors'' \<noteq> None
             \<or> (\<exists>i. map_of d ''id'' = Some i)
               \<and> (map_of d ''type'' = None
                  \<or> map_of d ''type'' = Some (PStr (str ''pullrequest'')))"
  shows "each self url_joiner paged q sort_arg
           = (map (\<lambda>d. if map_of d ''errors'' \<noteq> None then None
                       else Some \<lparr>pr_url = url_joiner (prs_url self) (the (map_of d ''id'')),
                                  pr_data = d\<rparr>) records,
              fin)"
  using assms(1) by (simp add: each_def Let_def each_loop_one_item_per_record [OF assms(2)])

text \<open>
  Claim C1 has a record with an \<open>errors\<close> key skipped, so that a page of one well-formed
  record and one such record yields exactly one item, the wrapped pull request; the
  docstring of \<open>each\<close> promises a generator of pull request objects as well. The source
  does otherwise: \<open>__get_object\<close> returns \<open>None\<close> for the error record and \<open>each\<close> yields that
  \<open>None\<close>, so the page yields two items.
\<close>

theorem each_yields_None_for_error_record:
  "each \<lparr>prs_url = ''prs''\<rparr> (\<lambda>u i. u @ ''/7'')
     (\<lambda>ps. ([[(''type'', PStr (str ''pullrequest'')), (''id'', PInt 7),
              (''state'', PStr (str ''OPEN''))],
             [(''errors'', PList [PStr (str ''boom'')])]], None))
     Omitted Omitted
   = ([Some \<lparr>pr_url = ''prs/7'',
         pr_data = [(''type'', PStr (str ''pullrequest'')), (''id'', PInt 7),
                    (''state'', PStr (str ''OPEN''))]\<rparr>,
       None], None)
   \<and> each \<lparr>prs_url = ''prs''\<rparr> (\<lambda>u i. u @ ''/7'')
     (\<lambda>ps. ([[(''type'', PStr (str ''pullrequest'')), (''id'', PInt 7),
              (''state'', PStr (str ''OPEN''))],
             [(''errors'', PList [PStr (str ''boom'')])]], None))
     Omitted Omitted
   \<noteq> ([Some \<lparr>pr_url = ''prs/7'',
         pr_data = [(''type'', PStr (str ''pullrequest'')), (''id'', PInt 7),
                    (''state'', PStr (str ''OPEN''))]\<rparr>],
       None)"
  by (simp add: each_def Let_def get_object_def PullRequest_init_def)

section \<open>List methods of the Service Desk client\<close>

lemma paging_params_fresh:
  assumes "''start'' \<notin> set (map fst ps)" and "''limit'' \<notin> set (map fst ps)"
  shows "paging_params ps start limit
     = ps @ (case start of None \<Rightarrow> [] | Some s \<Rightarrow> [(''start'', PInt s)])
          @ (case limit of None \<Rightarrow> [] | Some l \<Rightarrow> [(''limit'', PInt l)])"
  using assms by (simp add: paging_params_def dict_set_def Let_def split: option.splits)

lemma paging_params_Nil: "paging_params [] start limit = forwarded start limit"
  using paging_params_fresh [of "[]" start limit] by (simp add: forwarded_def)

lemma snd_get_request_participants:
  "snd (get_request_participants srv self k start_arg limit_arg sent)
     = sent @ [\<lparr>meth = GET, base = sd_url self,
                path = ''rest/servicedeskapi/request/'' @ k @ ''/participant'',
                query_params =
                  paging_params [] (arg_or (Some 0) start_arg) (arg_or (Some 50) limit_arg),
                headers = experimental_headers self, body = None\<rparr>]"
  by (simp add: get_request_participants_def Let_def sd_get_def send_def split: sum.splits)

lemma snd_get_sla:
  "snd (get_sla srv self k start_arg limit_arg sent)
     = sent @ [\<lparr>meth = GET, base = sd_url self,
                path = ''rest/servicedeskapi/request/'' @ k @ ''/sla'',
                query_params =
                  paging_params [] (arg_or (Some 0) start_arg) (arg_or (Some 50) limit_arg),
                headers = experimental_headers self, body = None\<rparr>]"
  by (simp add: get_sla_def Let_def sd_get_def send_def split: sum.splits)

lemma snd_get_approvals:
  "snd (get_approvals srv self k start_arg limit_arg sent)
     = sent @ [\<lparr>meth = GET, base = sd_url self,
                path = ''rest/servicedeskapi/request/'' @ k @ ''/approval'',
                query_params =
                  paging_params [] (arg_or (Some 0) start_arg) (arg_or (Some 50) limit_arg),
                headers = experimental_headers self, body = None\<rparr>]"
  by (simp add: get_approvals_def Let_def sd_get_def send_def split: sum.splits)

lemma snd_get_organisations:
  "snd (get_organisations srv self sd_arg start_arg limit_arg sent)
     = sent @ [\<lparr>meth = GET, base = sd_url self,
                path = (case arg_or None sd_arg of
                          None \<Rightarrow> ''rest/servicedeskapi/organization''
                        | Some i \<Rightarrow> ''rest/servicedeskapi/servicedesk/'' @ i @ ''/organization''),
                query_params =
                  paging_params [] (arg_or (Some 0) start_arg) (arg_or (Some 50) limit_arg),
                headers = experimental_headers self, body = None\<rparr>]"
  by (simp add: get_organisations_def Let_def sd_get_def send_def split: option.splits)

lemma snd_get_users_in_organization:
  "snd (get_users_in_organization srv self k start_arg limit_arg sent)
     = sent @ [\<lparr>meth = GET, base = sd_url self,
                path = ''rest/servicedeskapi/organization/'' @ k @ ''/user'',
                query_params =
                  paging_params [] (arg_or (Some 0) start_arg) (arg_or (Some 50) limit_arg),
                headers = experimental_headers self, body = None\<rparr>]"
  by (simp add: get_users_in_organization_def Let_def sd_get_def send_def)

lemma snd_get_issues_in_queue:
  "snd (get_issues_in_queue srv self k qid start_arg limit_arg sent)
     = sent @ [\<lparr>meth = GET, base = sd_url self,
                path = ''rest/servicedeskapi/servicedesk/'' @ k @ ''/queue/'' @ qid @ ''/issue'',
                query_params =
                  paging_params [] (arg_or (Some 0) start_arg) (arg_or (Some 50) limit_arg),
                headers = experimental_headers self, body = None\<rparr>]"
  by (simp add: get_issues_in_queue_def Let_def sd_get_def send_def)

lemma snd_get_customers:
  "snd (get_customers srv self k query_arg start_arg limit_arg sent)
     = sent @ [\<lparr>meth = GET, base = sd_url self,
                path = ''rest/servicedeskapi/servicedesk/'' @ k @ ''/customer'',
                query_params =
                  paging_params [] (arg_or (Some 0) start_arg) (arg_or (Some 50) limit_arg)
                  @ (if arg_or PNone query_arg \<noteq> PNone
                     then [(''query'', arg_or PNone query_arg)] else []),
                headers = experimental_headers self, body = None\<rparr>]"
  by (auto simp: get_customers_def Let_def sd_get_def send_def dict_set_def paging_params_Nil
      forwarded_def split: option.splits)

lemma snd_get_queues:
  "snd (get_queues srv self k include_count_arg start_arg limit_arg sent)
     = sent @ [\<lparr>meth = GET, base = sd_url self,
                path = ''rest/servicedeskapi/servicedesk/'' @ k @ ''/queue'',
                query_params =
                  (if arg_or (PBool False) include_count_arg \<noteq> PNone
                   then [(''includeCount'', PBool (truthy (arg_or (PBool False) include_count_arg)))]
                   else [])
                  @ paging_params [] (arg_or (Some 0) start_arg) (arg_or (Some 50) limit_arg),
                headers = experimental_headers self, body = None\<rparr>]"
  by (simp add: get_queues_def Let_def sd_get_def send_def dict_set_def paging_params_Nil
      paging_params_fresh forwarded_def)


text \<open>
  Claim C8. Each Service Desk list method that takes \<open>start\<close> and \<open>limit\<close>
  (\<open>get_request_participants\<close>, \<open>get_organisations\<close>, \<open>get_users_in_organization\<close>, \<open>get_sla\<close>,
  \<open>get_approvals\<close>, \<open>get_customers\<close>, \<open>get_queues\<close>, \<open>get_issues_in_queue\<close>) adds exactly one
  GET to the requests sent, whatever the server answers (so no next-page pointer of the
  answer is followed), and that request carries \<open>start\<close> and \<open>limit\<close> as integers when they
  are not \<open>None\<close>.
\<close>

theorem list_methods_one_get:
  "snd (get_request_participants srv self k start_arg limit_arg sent)
     = sent @ [\<lparr>meth = GET, base = sd_url self,
                path = ''rest/servicedeskapi/request/'' @ k @ ''/participant'',
                query_params = forwarded (arg_or (Some 0) start_arg) (arg_or (Some 50) limit_arg),
                headers = experimental_headers self, body = None\<rparr>]
   \<and> snd (get_organisations srv self sd_arg start_arg limit_arg sent)
     = sent @ [\<lparr>meth = GET, base = sd_url self,
                path = (case arg_or None sd_arg of
                          None \<Rightarrow> ''rest/servicedeskapi/organization''
                        | Some i \<Rightarrow> ''rest/servicedeskapi/servicedesk/'' @ i @ ''/organization''),
                query_params = forwarded (arg_or (Some 0) start_arg) (arg_or (Some 50) limit_arg),
                headers = experimental_headers self, body = None\<rparr>]
   \<and> snd (get_users_in_organization srv self k start_arg limit_arg sent)
     = sent @ [\<lparr>meth = GET, base = sd_url self,
                path = ''rest/servicedeskapi/organization/'' @ k @ ''/user'',
                query_params = forwarded (arg_or (Some 0) start_arg) (arg_or (Some 50) limit_arg),
                headers = experimental_headers self, body = None\<rparr>]
   \<and> snd (get_sla srv self k start_arg limit_arg sent)
     = sent @ [\<lparr>meth = GET, base = sd_url self,
                path = ''rest/servicedeskapi/request/'' @ k @ ''/sla'',
                query_params = forwarded (arg_or (Some 0) start_arg) (arg_or (Some 50) limit_arg),
                headers = experimental_headers self, body = None\<rparr>]
   \<and> snd (get_approvals srv self k start_arg limit_arg sent)
     = sent @ [\<lparr>meth = GET, base = sd_url self,
                path = ''rest/servicedeskapi/request/'' @ k @ ''/approval'',
                query_params = forwarded (arg_or (Some 0) start_arg) (arg_or (Some 50) limit_arg),
                headers = experimental_headers self, body = None\<rparr>]
   \<and> snd (get_customers srv self k query_arg start_arg limit_arg sent)
     = sent @ [\<lparr>meth = GET, base = sd_url self,
                path = ''rest/servicedeskapi/servicedesk/'' @ k @ ''/customer'',
                query_params = forwarded (arg_or (Some 0) start_arg) (arg_or (Some 50) limit_arg)
                  @ (if arg_or PNone query_arg = PNone then []
                     else [(''query'', arg_or PNone query_arg)]),
                headers = experimental_headers self, body = None\<rparr>]
   \<and> snd (get_queues srv self k include_count_arg start_arg limit_arg sent)
     = sent @ [\<lparr>meth = GET, base = sd_url self,
                path = ''rest/servicedeskapi/servicedesk/'' @ k @ ''/queue'',
                query_params =
                  (if arg_or (PBool False) include_count_arg = PNone then []
                   else [(''includeCount'', PBool (truthy (arg_or (PBool False) include_count_arg)))])
                  @ forwarded (arg_or (Some 0) start_arg) (arg_or (Some 50) limit_arg),
                headers = experimental_headers self, body = None\<rparr>]
   \<and> snd (get_issues_in_queue srv self k queue_id start_arg limit_arg sent)
     = sent @ [\<lparr>meth = GET, base = sd_url self,
                path = ''rest/servicedeskapi/servicedesk/'' @ k @ ''/queue/'' @ queue_id
                  @ ''/issue'',
                query_params = forwarded (arg_or (Some 0) start_arg) (arg_or (Some 50) limit_arg),
                headers = experimental_headers self, body = None\<rparr>]"
  unfolding snd_get_request_participants snd_get_sla snd_get_approvals snd_get_organisations
    snd_get_users_in_organization snd_get_issues_in_queue snd_get_customers snd_get_queues
    paging_params_Nil
  by simp

text \<open>
  A server whose answer names a next page: \<open>get_sla\<close> still sends the one request. And
  \<open>get_organisations\<close> with \<open>start=None\<close> and \<open>limit\<close> omitted forwards the default limit only.
\<close>

theorem list_methods_one_get_witness:
  "snd (get_sla
         (\<lambda>r. Inr (PDict [(''values'', PList []), (''isLastPage'', PBool False),
                           (''_links'', PDict [(''next'', PStr (str ''https://x/sla?start=2''))])]))
         \<lparr>sd_url = ''https://x'', advanced_mode = False, experimental_headers = []\<rparr>
         ''K-1'' (Given (Some 0)) (Given (Some 2)) [])
     = [\<lparr>meth = GET, base = ''https://x'', path = ''rest/servicedeskapi/request/K-1/sla'',
         query_params = [(''start'', PInt 0), (''limit'', PInt 2)], headers = [], body = None\<rparr>]
   \<and> snd (get_organisations (\<lambda>r. Inr PNone)
         \<lparr>sd_url = ''https://x'', advanced_mode = False, experimental_headers = []\<rparr>
         Omitted (Given None) Omitted [])
     = [\<lparr>meth = GET, base = ''https://x'', path = ''rest/servicedeskapi/organization'',
         query_params = [(''limit'', PInt 50)], headers = [], body = None\<rparr>]"
  using
    list_methods_one_get
      [of "\<lambda>r. Inr (PDict [(''values'', PList []), (''isLastPage'', PBool False),
                           (''_links'', PDict [(''next'', PStr (str ''https://x/sla?start=2''))])])"
          "\<lparr>sd_url = ''https://x'', advanced_mode = False, experimental_headers = []\<rparr>"
          "''K-1''" "Given (Some 0)" "Given (Some 2)" "[]"]
    list_methods_one_get
      [of "\<lambda>r. Inr PNone"
          "\<lparr>sd_url = ''https://x'', advanced_mode = False, experimental_headers = []\<rparr>"
          "''K-1''" "Given None" Omitted "[]" Omitted]
  by (simp add: forwarded_def)

lemma py_get_or_falsy:
  "\<not> truthy response \<Longrightarrow> py_get (py_or response (PDict [])) ''values'' = Inr PNone"
  by (simp add: py_or_def)

lemma py_get_or_dict:
  "py_get (py_or (PDict d) (PDict [])) ''values''
     = Inr (case map_of d ''values'' of Some v \<Rightarrow> v | None \<Rightarrow> PNone)"
  by (cases d) (simp_all add: py_or_def)

lemma fst_unwrap:
  assumes "\<And>r. srv r = Inr response"
  shows "fst (get_service_desks srv self sent)
           = (if advanced_mode self then Inr response
              else py_get (py_or response (PDict [])) ''values'')"
    and "fst (get_my_customer_requests srv self sent)
           = (if advanced_mode self then Inr response
              else py_get (py_or response (PDict [])) ''values'')"
    and "fst (get_request_participants srv self k start_arg limit_arg sent)
           = (if advanced_mode self then Inr response
              else py_get (py_or response (PDict [])) ''values'')"
    and "fst (get_sla srv self k start_arg limit_arg sent)
           = (if advanced_mode self then Inr response
              else py_get (py_or response (PDict [])) ''values'')"
    and "fst (get_approvals srv self k start_arg limit_arg sent)
           = (if advanced_mode self then Inr response
              else py_get (py_or response (PDict [])) ''values'')"
  by (simp_all add: get_service_desks_def get_my_customer_requests_def
      get_request_participants_def get_sla_def get_approvals_def Let_def sd_get_def send_def assms)

text \<open>
  Claim C10. For \<open>get_service_desks\<close>, \<open>get_my_customer_requests\<close>, \<open>get_request_participants\<close>,
  \<open>get_sla\<close> and \<open>get_approvals\<close>, on a server that answers with \<open>response\<close>: in advanced mode
  the response is returned unchanged; otherwise a falsy response (\<open>None\<close>, empty) gives \<open>None\<close>
  and no error, and a dictionary gives its \<open>values\<close> field (\<open>None\<close> when it has none).
\<close>

theorem unwrap_values_or_raw:
  assumes "\<And>r. srv r = Inr response"
  shows "(advanced_mode self \<longrightarrow>
            fst (get_service_desks srv self sent) = Inr response
          \<and> fst (get_my_customer_requests srv self sent) = Inr response
          \<and> fst (get_request_participants srv self k start_arg limit_arg sent) = Inr response
          \<and> fst (get_sla srv self k start_arg limit_arg sent) = Inr response
          \<and> fst (get_approvals srv self k start_arg limit_arg sent) = Inr response)
       \<and> (\<not> advanced_mode self \<and> \<not> truthy response \<longrightarrow>
            fst (get_service_desks srv self sent) = Inr PNone
          \<and> fst (get_my_customer_requests srv self sent) = Inr PNone
          \<and> fst (get_request_participants srv self k start_arg limit_arg sent) = Inr PNone
          \<and> fst (get_sla srv self k start_arg limit_arg sent) = Inr PNone
          \<and> fst (get_approvals srv self k start_arg limit_arg sent) = Inr PNone)
       \<and> (\<not> advanced_mode self \<and> response = PDict d \<longrightarrow>
            fst (get_service_desks srv self sent)
              = Inr (case map_of d ''values'' of Some v \<Rightarrow> v | None \<Rightarrow> PNone)
          \<and> fst (get_my_customer_requests srv self sent)
              = Inr (case map_of d ''values'' of Some v \<Rightarrow> v | None \<Rightarrow> PNone)
          \<and> fst (get_request_participants srv self k start_arg limit_arg sent)
              = Inr (case map_of d ''values'' of Some v \<Rightarrow> v | None \<Rightarrow> PNone)
          \<and> fst (get_sla srv self k start_arg limit_arg sent)
              = Inr (case map_of d ''values'' of Some v \<Rightarrow> v | None \<Rightarrow> PNone)
          \<and> fst (get_approvals srv self k start_arg limit_arg sent)
              = Inr (case map_of d ''values'' of Some v \<Rightarrow> v | None \<Rightarrow> PNone))"
  unfolding fst_unwrap [of srv, OF assms]
  by (auto simp: py_get_or_falsy py_get_or_dict)


text \<open>
  A page of one value in advanced and in plain mode, the answer \<open>None\<close>, and the empty
  dictionary.
\<close>

theorem unwrap_values_or_raw_witness:
  "fst (get_sla (\<lambda>r. Inr (PDict [(''size'', PInt 1), (''values'', PList [PStr (str ''a'')])]))
         \<lparr>sd_url = ''https://x'', advanced_mode = True, experimental_headers = []\<rparr>
         ''K-1'' Omitted Omitted [])
     = Inr (PDict [(''size'', PInt 1), (''values'', PList [PStr (str ''a'')])])
   \<and> fst (get_sla (\<lambda>r. Inr (PDict [(''size'', PInt 1), (''values'', PList [PStr (str ''a'')])]))
         \<lparr>sd_url = ''https://x'', advanced_mode = False, experimental_headers = []\<rparr>
         ''K-1'' Omitted Omitted [])
     = Inr (PList [PStr (str ''a'')])
   \<and> fst (get_service_desks (\<lambda>r. Inr PNone)
         \<lparr>sd_url = ''https://x'', advanced_mode = False, experimental_headers = []\<rparr> [])
     = Inr PNone
   \<and> fst (get_approvals (\<lambda>r. Inr (PDict []))
         \<lparr>sd_url = ''https://x'', advanced_mode = False, experimental_headers = []\<rparr>
         ''K-1'' Omitted Omitted [])
     = Inr PNone"
  using
    unwrap_values_or_raw
      [of "\<lambda>r. Inr (PDict [(''size'', PInt 1), (''values'', PList [PStr (str ''a'')])])"
          "PDict [(''size'', PInt 1), (''values'', PList [PStr (str ''a'')])]"
          "\<lparr>sd_url = ''https://x'', advanced_mode = True, experimental_headers = []\<rparr>"
          "[]" "''K-1''" Omitted Omitted "[]"]
    unwrap_values_or_raw
      [of "\<lambda>r. Inr (PDict [(''size'', PInt 1), (''values'', PList [PStr (str ''a'')])])"
          "PDict [(''size'', PInt 1), (''values'', PList [PStr (str ''a'')])]"
          "\<lparr>sd_url = ''https://x'', advanced_mode = False, experimental_headers = []\<rparr>"
          "[]" "''K-1''" Omitted Omitted "[(''size'', PInt 1), (''values'', PList [PStr (str ''a'')])]"]
    unwrap_values_or_raw
      [of "\<lambda>r. Inr PNone" PNone
          "\<lparr>sd_url = ''https://x'', advanced_mode = False, experimental_headers = []\<rparr>"
          "[]" "''K-1''" Omitted Omitted "[]"]
    unwrap_values_or_raw
      [of "\<lambda>r. Inr (PDict [])" "PDict []"
          "\<lparr>sd_url = ''https://x'', advanced_mode = False, experimental_headers = []\<rparr>"
          "[]" "''K-1''" Omitted Omitted "[]"]
  by simp

end
